theory Spec2Isabelle
  imports Complex_Main
begin

section \<open>Conventions of the embedding\<close>

text \<open>
  The program is \<^verbatim>\<open>src/app.py\<close>. Its numeric core is modelled as follows.
  \<^item> Ages in months are Python integers: \<open>int\<close>.
  \<^item> Heights, weights, medians, standard deviations and z-scores are Python floats. They
    are modelled as exact reals (a literal such as \<^verbatim>\<open>49.9\<close> is the rational 499/10);
    rounding of binary floating point is not modelled. The one place where the program
    can leave the finite numbers, the division of the BMI, is modelled with the special
    values of float division written out (\<open>fval\<close> below).
  \<^item> The sex is the string the code compares with \<^verbatim>\<open>'M'\<close>.
  \<^item> A raised exception is the left injection of a sum type.
\<close>

datatype py_error = ValueError | KeyError | ZeroDivisionError | ModelError

section \<open>The WHO reference table (\<^verbatim>\<open>get_height_for_age_reference\<close>, lines 57-105)\<close>

text \<open>A table row: (median male, SD male, median female, SD female).\<close>

type_synonym ref_row = "real \<times> real \<times> real \<times> real"

text \<open>The dictionary literal of lines 61-72, in insertion order.\<close>

definition references :: "(int \<times> ref_row) list" where
  "references =
    [(0, (49.9, 1.9, 49.1, 1.9)),
     (3, (61.4, 2.4, 59.8, 2.4)),
     (6, (67.6, 2.5, 65.7, 2.5)),
     (9, (72.3, 2.7, 70.4, 2.7)),
     (12, (76.0, 2.8, 74.3, 2.8)),
     (18, (82.4, 3.1, 80.7, 3.1)),
     (24, (87.8, 3.4, 86.4, 3.4)),
     (36, (96.1, 3.8, 95.1, 3.9)),
     (48, (102.9, 4.2, 101.9, 4.3)),
     (60, (109.1, 4.5, 108.4, 4.6))]"

text \<open>\<^verbatim>\<open>references.keys()\<close>: the keys in insertion order.\<close>

definition keys :: "(int \<times> ref_row) list \<Rightarrow> int list" where
  "keys d = map fst d"

text \<open>\<^verbatim>\<open>references[k]\<close>: a missing key raises \<^verbatim>\<open>KeyError\<close>.\<close>

definition getitem :: "(int \<times> ref_row) list \<Rightarrow> int \<Rightarrow> py_error + ref_row" where
  "getitem d k = (case map_of d k of None \<Rightarrow> Inl KeyError | Some v \<Rightarrow> Inr v)"

text \<open>
  Python's \<^verbatim>\<open>min(xs, key=f)\<close>: one pass that replaces the best element only by a
  strictly smaller one, so the first of several minimal elements is returned; an empty
  sequence raises \<^verbatim>\<open>ValueError\<close>.
\<close>

fun min_from :: "('a \<Rightarrow> int) \<Rightarrow> 'a \<Rightarrow> 'a list \<Rightarrow> 'a" where
  "min_from key best [] = best"
| "min_from key best (x # xs) = min_from key (if key x < key best then x else best) xs"

definition py_min :: "'a list \<Rightarrow> ('a \<Rightarrow> int) \<Rightarrow> py_error + 'a" where
  "py_min xs key = (case xs of [] \<Rightarrow> Inl ValueError | x # rest \<Rightarrow> Inr (min_from key x rest))"

text \<open>\<^verbatim>\<open>xs.index(v)\<close>: the first position of \<open>v\<close>, \<^verbatim>\<open>ValueError\<close> when absent.\<close>

fun list_index :: "'a list \<Rightarrow> 'a \<Rightarrow> py_error + nat" where
  "list_index [] v = Inl ValueError"
| "list_index (x # xs) v =
     (if x = v then Inr 0
      else (case list_index xs v of Inl e \<Rightarrow> Inl e | Inr i \<Rightarrow> Inr (Suc i)))"

text \<open>
  The selection \<^verbatim>\<open>if sex == 'M': row[0], row[1] else: row[2], row[3]\<close>, which the
  source writes out at lines 85-88, 92-97 and 102-105.
\<close>

definition for_sex :: "string \<Rightarrow> ref_row \<Rightarrow> real \<times> real" where
  "for_sex sex r =
     (case r of (m_male, sd_male, m_female, sd_female) \<Rightarrow>
        if sex = ''M'' then (m_male, sd_male) else (m_female, sd_female))"

text \<open>
  Lines 74-88 decide which anchors are used: a single anchor (the exact age, the
  fallback for a nearest anchor more than 12 months away, or the edge case with no
  neighbour on the needed side), or the pair \<open>(closest_age, next_age)\<close> after the swap of
  line 83, between which lines 90-100 interpolate.
\<close>

datatype anchors = Single int | Bracket int int

definition select_anchors :: "int \<Rightarrow> py_error + anchors" where
  "select_anchors age_months =
     (case py_min (keys references) (\<lambda>x. \<bar>x - age_months\<bar>) of
        Inl e \<Rightarrow> Inl e
      | Inr closest_age \<Rightarrow>
          if closest_age \<noteq> age_months \<and> \<bar>closest_age - age_months\<bar> \<le> 12 then
            (let ages = sort (keys references) in
             case list_index ages closest_age of
               Inl e \<Rightarrow> Inl e
             | Inr idx \<Rightarrow>
                 if closest_age < age_months \<and> int idx < int (length ages) - 1
                 then Inr (Bracket closest_age (ages ! (idx + 1)))
                 else if closest_age > age_months \<and> idx > 0
                 then Inr (Bracket (ages ! (idx - 1)) closest_age)
                 else Inr (Single closest_age))
          else Inr (Single closest_age))"

text \<open>Lines 90-100: linear interpolation of median and SD between two table rows.\<close>

definition interpolate :: "int \<Rightarrow> string \<Rightarrow> int \<Rightarrow> int \<Rightarrow> py_error + real \<times> real" where
  "interpolate age_months sex closest_age next_age =
     (let age_diff = next_age - closest_age in
      if age_diff = 0 then Inl ZeroDivisionError
      else
        (let weight = real_of_int (age_months - closest_age) / real_of_int age_diff in
         case getitem references closest_age of
           Inl e \<Rightarrow> Inl e
         | Inr r1 \<Rightarrow>
             (case getitem references next_age of
                Inl e \<Rightarrow> Inl e
              | Inr r2 \<Rightarrow>
                  (case (for_sex sex r1, for_sex sex r2) of
                     ((m1, sd1), (m2, sd2)) \<Rightarrow>
                       Inr (m1 + weight * (m2 - m1), sd1 + weight * (sd2 - sd1))))))"

text \<open>Lines 85-88 and 102-105: the values of one anchor, without interpolation.\<close>

definition anchor_value :: "int \<Rightarrow> string \<Rightarrow> py_error + real \<times> real" where
  "anchor_value closest_age sex =
     (case getitem references closest_age of
        Inl e \<Rightarrow> Inl e
      | Inr r \<Rightarrow> Inr (for_sex sex r))"

definition get_height_for_age_reference :: "int \<Rightarrow> string \<Rightarrow> py_error + real \<times> real" where
  "get_height_for_age_reference age_months sex =
     (case select_anchors age_months of
        Inl e \<Rightarrow> Inl e
      | Inr (Bracket closest_age next_age) \<Rightarrow> interpolate age_months sex closest_age next_age
      | Inr (Single closest_age) \<Rightarrow> anchor_value closest_age sex)"

text \<open>
  Pairs of neighbouring anchor ages, in ascending order: the brackets
  \<open>[lowAge, highAge]\<close> between which an age can lie.
\<close>

definition adjacent_anchors :: "(int \<times> int) list" where
  "adjacent_anchors = (let ages = sort (keys references) in zip ages (tl ages))"

section \<open>The z-score (\<^verbatim>\<open>calculate_height_for_age_z\<close>, lines 107-114)\<close>

text \<open>A row of the input table, with the columns the code requires (line 339).\<close>

record child_row =
  Sex :: string
  Age :: int
  Birth_Weight :: real
  Birth_Length :: real
  Body_Weight :: real
  Body_Length :: real
  ASI_Eksklusif :: string

text \<open>
  Line 113 divides by the SD of the reference; the branch for a zero divisor is kept
  in the model so that its absence is a theorem and not a convention of HOL, where
  \<open>x / 0 = 0\<close>.
\<close>

definition calculate_height_for_age_z :: "child_row \<Rightarrow> py_error + real" where
  "calculate_height_for_age_z row =
     (let age = Age row; height = Body_Length row; sex = Sex row in
      case get_height_for_age_reference age sex of
        Inl e \<Rightarrow> Inl e
      | Inr (median, sd) \<Rightarrow>
          if sd = 0 then Inl ZeroDivisionError else Inr ((height - median) / sd))"

section \<open>Prediction (\<^verbatim>\<open>predict_stunting\<close>, lines 128-163)\<close>

text \<open>
  The result of a float division performed on a table column (line 134): the division
  raises nothing, a zero divisor gives an infinity or NaN. The divisor of the BMI is
  a square, so a zero divisor is \<open>+0.0\<close> and the sign of the infinity is the sign of
  the dividend.
\<close>

datatype fval = Finite real | PosInf | NegInf | NaN

definition fdiv :: "real \<Rightarrow> real \<Rightarrow> fval" where
  "fdiv x y =
     (if y \<noteq> 0 then Finite (x / y)
      else if x > 0 then PosInf
      else if x < 0 then NegInf
      else NaN)"

definition is_finite :: "fval \<Rightarrow> bool" where
  "is_finite v = (case v of Finite x \<Rightarrow> True | _ \<Rightarrow> False)"

text \<open>Line 134: \<^verbatim>\<open>BMI = Body Weight / ((Body Length / 100) ** 2)\<close>.\<close>

definition compute_bmi :: "child_row \<Rightarrow> fval" where
  "compute_bmi data = fdiv (Body_Weight data) ((Body_Length data / 100)\<^sup>2)"

text \<open>
  Lines 141-149: the WHO classification of a z-score, as the pair
  \<open>(who_classification, who_stunting)\<close>. The spec's \<open>SeverelyStunted\<close>, \<open>Stunted\<close> and
  \<open>Normal\<close> are the strings \<^verbatim>\<open>'Severely stunted (WHO)'\<close>, \<^verbatim>\<open>'Stunted (WHO)'\<close> and
  \<^verbatim>\<open>'Not stunted (WHO)'\<close>; \<open>is_stunted\<close> is \<^verbatim>\<open>'Yes'\<close> or \<^verbatim>\<open>'No'\<close>.
\<close>

definition classify :: "real \<Rightarrow> string \<times> string" where
  "classify height_for_age_z =
     (if height_for_age_z < - 3 then (''Severely stunted (WHO)'', ''Yes'')
      else if height_for_age_z < - 2 then (''Stunted (WHO)'', ''Yes'')
      else (''Not stunted (WHO)'', ''No''))"

text \<open>The dictionary returned at lines 157-163.\<close>

record prediction =
  stunting_probability :: real
  stunting_prediction :: string
  who_classification :: string
  height_for_age_z_score :: real
  bmi :: fval

text \<open>
  The preprocessor and the trained model (lines 152-155) are loaded from files that are
  not part of the program. They are a parameter: a function from the row with its two
  engineered features (BMI, z-score) to a probability, which may raise.
\<close>

type_synonym scorer = "child_row \<Rightarrow> fval \<Rightarrow> real \<Rightarrow> py_error + real"

definition predict_stunting :: "child_row \<Rightarrow> scorer \<Rightarrow> py_error + prediction" where
  "predict_stunting data score =
     (let bmi_value = compute_bmi data in
      case calculate_height_for_age_z data of
        Inl e \<Rightarrow> Inl e
      | Inr height_for_age_z \<Rightarrow>
          (case classify height_for_age_z of
             (who_class, who_stunting) \<Rightarrow>
               (case score data bmi_value height_for_age_z of
                  Inl e \<Rightarrow> Inl e
                | Inr stunting_prob \<Rightarrow>
                    Inr \<lparr>stunting_probability = stunting_prob,
                         stunting_prediction = who_stunting,
                         who_classification = who_class,
                         height_for_age_z_score = height_for_age_z,
                         bmi = bmi_value\<rparr>)))"

section \<open>Batch prediction (\<^verbatim>\<open>main\<close>, lines 343-350 and 386-387)\<close>

text \<open>
  The loop of lines 346-349 appends one result per row; an exception raised for a row
  leaves the loop.
\<close>

fun batch_loop :: "child_row list \<Rightarrow> scorer \<Rightarrow> prediction list \<Rightarrow> py_error + prediction list" where
  "batch_loop [] score results = Inr results"
| "batch_loop (row # rest) score results =
     (case predict_stunting row score of
        Inl e \<Rightarrow> Inl e
      | Inr result \<Rightarrow> batch_loop rest score (results @ [result]))"

text \<open>
  What the batch section shows: the table of results (line 357), or, when an exception
  reached the handler of lines 386-387, one error message and no result.
\<close>

datatype batch_outcome = Results "prediction list" | ErrorShown py_error

definition predict_batch :: "child_row list \<Rightarrow> scorer \<Rightarrow> batch_outcome" where
  "predict_batch batch_data score =
     (case batch_loop batch_data score [] of
        Inl e \<Rightarrow> ErrorShown e
      | Inr results \<Rightarrow> Results results)"

section \<open>Example inputs\<close>

text \<open>The rows of the two quick-example buttons (lines 315-325).\<close>

definition example_normal :: child_row where
  "example_normal =
     \<lparr>Sex = ''M'', Age = 12, Birth_Weight = 3.2, Birth_Length = 50.0,
      Body_Weight = 9.5, Body_Length = 75.0, ASI_Eksklusif = ''Yes''\<rparr>"

definition example_stunting :: child_row where
  "example_stunting =
     \<lparr>Sex = ''F'', Age = 24, Birth_Weight = 2.3, Birth_Length = 47.0,
      Body_Weight = 8.5, Body_Length = 79.0, ASI_Eksklusif = ''No''\<rparr>"

text \<open>
  Two stand-ins for the external model: one that scores every row, and one that raises
  on a BMI that is not finite and scores every other row.
\<close>

definition accepting_scorer :: scorer where
  "accepting_scorer data bmi_value z = Inr (1 / 2)"

definition finite_only_scorer :: scorer where
  "finite_only_scorer data bmi_value z =
     (if is_finite bmi_value then Inr (1 / 2) else Inl ModelError)"

section \<open>The anchors chosen for an age\<close>

lemma keys_references: "keys references = [0, 3, 6, 9, 12, 18, 24, 36, 48, 60]"
  by (simp add: keys_def references_def)

lemma sorted_ages: "sort (keys references) = [0, 3, 6, 9, 12, 18, 24, 36, 48, 60]"
  by (simp add: keys_references)

lemma adjacent_anchors_eq:
  "adjacent_anchors =
     [(0, 3), (3, 6), (6, 9), (9, 12), (12, 18), (18, 24), (24, 36), (36, 48), (48, 60)]"
  by (simp add: adjacent_anchors_def sorted_ages)

text \<open>
  The anchor that \<^verbatim>\<open>min\<close> returns at line 74, for every integer age. At the ages
  15, 21, 30, 42 and 54, which are equally far from two anchors, it is the lower one:
  the first in the order of the dictionary.
\<close>

lemma nearest_anchor:
  "py_min (keys references) (\<lambda>x. \<bar>x - age\<bar>) = Inr
     (if age \<le> 1 then 0 else if age \<le> 4 then 3 else if age \<le> 7 then 6
      else if age \<le> 10 then 9 else if age \<le> 15 then 12 else if age \<le> 21 then 18
      else if age \<le> 30 then 24 else if age \<le> 42 then 36 else if age \<le> 54 then 48
      else 60)"
proof -
  consider "age \<le> 1" | "1 < age \<and> age \<le> 4" | "4 < age \<and> age \<le> 7"
    | "7 < age \<and> age \<le> 10" | "10 < age \<and> age \<le> 15" | "15 < age \<and> age \<le> 21"
    | "21 < age \<and> age \<le> 30" | "30 < age \<and> age \<le> 42" | "42 < age \<and> age \<le> 54"
    | "54 < age"
    by linarith
  then show ?thesis
    unfolding keys_references py_min_def
    by cases (simp_all add: abs_if)
qed

text \<open>The outcome of lines 74-88 for every integer age, in closed form.\<close>

lemma select_anchors_closed:
  "select_anchors age = Inr
     (if age \<le> 0 then Single 0
      else if age < 3 then Bracket 0 3 else if age = 3 then Single 3
      else if age < 6 then Bracket 3 6 else if age = 6 then Single 6
      else if age < 9 then Bracket 6 9 else if age = 9 then Single 9
      else if age < 12 then Bracket 9 12 else if age = 12 then Single 12
      else if age < 18 then Bracket 12 18 else if age = 18 then Single 18
      else if age < 24 then Bracket 18 24 else if age = 24 then Single 24
      else if age < 36 then Bracket 24 36 else if age = 36 then Single 36
      else if age < 48 then Bracket 36 48 else if age = 48 then Single 48
      else if age < 60 then Bracket 48 60 else Single 60)"
proof -
  consider "age \<le> 1" | "1 < age \<and> age \<le> 4" | "4 < age \<and> age \<le> 7"
    | "7 < age \<and> age \<le> 10" | "10 < age \<and> age \<le> 15" | "15 < age \<and> age \<le> 21"
    | "21 < age \<and> age \<le> 30" | "30 < age \<and> age \<le> 42" | "42 < age \<and> age \<le> 54"
    | "54 < age"
    by linarith
  then show ?thesis
    unfolding select_anchors_def nearest_anchor sorted_ages
    by cases (auto simp add: Let_def)
qed

lemma select_anchors_single:
  "a \<in> set (keys references) \<Longrightarrow> select_anchors a = Inr (Single a)"
  by (auto simp add: keys_references select_anchors_closed)

lemma select_anchors_bracket:
  assumes "(lo, hi) \<in> set adjacent_anchors" "lo < age" "age < hi"
  shows "select_anchors age = Inr (Bracket lo hi)"
proof -
  from assms(1) consider "lo = 0 \<and> hi = 3" | "lo = 3 \<and> hi = 6" | "lo = 6 \<and> hi = 9"
    | "lo = 9 \<and> hi = 12" | "lo = 12 \<and> hi = 18" | "lo = 18 \<and> hi = 24"
    | "lo = 24 \<and> hi = 36" | "lo = 36 \<and> hi = 48" | "lo = 48 \<and> hi = 60"
    unfolding adjacent_anchors_eq by auto
  then show ?thesis
    using assms(2,3) by cases (simp_all add: select_anchors_closed)
qed

text \<open>An age of the supported range is an anchor or lies inside exactly one bracket.\<close>

lemma in_range_cases:
  "0 \<le> age \<Longrightarrow> age \<le> 60 \<Longrightarrow>
   age \<in> set (keys references) \<or> (\<exists>(lo, hi) \<in> set adjacent_anchors. lo < age \<and> age < hi)"
  unfolding keys_references adjacent_anchors_eq by simp arith

lemma key_has_row: "a \<in> set (keys d) \<Longrightarrow> \<exists>r. (a, r) \<in> set d"
  unfolding keys_def by force

lemma adjacent_keys:
  "(lo, hi) \<in> set adjacent_anchors \<Longrightarrow>
   lo \<in> set (keys references) \<and> hi \<in> set (keys references) \<and> lo < hi"
  by (auto simp add: adjacent_anchors_eq keys_references)

lemma adjacent_are_anchors:
  "(lo, hi) \<in> set adjacent_anchors \<Longrightarrow>
   \<exists>r1 r2. (lo, r1) \<in> set references \<and> (hi, r2) \<in> set references \<and> lo < hi"
  using adjacent_keys [of lo hi] key_has_row [of lo references] key_has_row [of hi references]
  by blast

section \<open>The values returned by the lookup\<close>

lemma getitem_anchor: "(a, r) \<in> set references \<Longrightarrow> getitem references a = Inr r"
  by (auto simp add: references_def getitem_def)

lemma reference_at_anchor:
  assumes "(a, r) \<in> set references"
  shows "get_height_for_age_reference a sex = Inr (for_sex sex r)"
proof -
  from assms have "a \<in> set (keys references)"
    by (force simp add: keys_def)
  then show ?thesis
    by (simp add: get_height_for_age_reference_def select_anchors_single anchor_value_def
        getitem_anchor [OF assms])
qed

lemma reference_in_bracket:
  assumes "(lo, hi) \<in> set adjacent_anchors" "lo < age" "age < hi"
    and "(lo, r1) \<in> set references" "(hi, r2) \<in> set references"
  shows "get_height_for_age_reference age sex =
    Inr (fst (for_sex sex r1) +
           real_of_int (age - lo) / real_of_int (hi - lo) *
             (fst (for_sex sex r2) - fst (for_sex sex r1)),
         snd (for_sex sex r1) +
           real_of_int (age - lo) / real_of_int (hi - lo) *
             (snd (for_sex sex r2) - snd (for_sex sex r1)))"
proof -
  have "lo \<noteq> hi"
    using assms by linarith
  then show ?thesis
    using assms
    by (simp add: get_height_for_age_reference_def select_anchors_bracket interpolate_def
        getitem_anchor Let_def split: prod.splits)
qed

lemma table_sd_bound: "(a, r) \<in> set references \<Longrightarrow> 19 / 10 \<le> snd (for_sex sex r)"
  by (auto simp add: references_def for_sex_def)

text \<open>A point between two reals is bounded as they are, below and on both sides.\<close>

lemma convex_lower:
  fixes x y w c :: real
  assumes "c \<le> x" "c \<le> y" "0 \<le> w" "w \<le> 1"
  shows "c \<le> x + w * (y - x)"
proof -
  have "x + w * (y - x) = (1 - w) * x + w * y"
    by (simp add: algebra_simps)
  moreover have "(1 - w) * c \<le> (1 - w) * x"
    using assms by (simp add: mult_left_mono)
  moreover have "w * c \<le> w * y"
    using assms by (simp add: mult_left_mono)
  moreover have "(1 - w) * c + w * c = c"
    by (simp add: algebra_simps)
  ultimately show ?thesis
    by linarith
qed

lemma convex_upper:
  fixes x y w c :: real
  assumes "x \<le> c" "y \<le> c" "0 \<le> w" "w \<le> 1"
  shows "x + w * (y - x) \<le> c"
proof -
  have "- c \<le> - x + w * (- y - (- x))"
    using assms by (intro convex_lower) simp_all
  then show ?thesis
    by (simp add: algebra_simps)
qed

lemma weight_unit:
  fixes lo hi age :: int
  assumes "lo \<le> age" "age \<le> hi" "lo < hi"
  shows "0 \<le> real_of_int (age - lo) / real_of_int (hi - lo)"
    and "real_of_int (age - lo) / real_of_int (hi - lo) \<le> 1"
  using assms by simp_all

text \<open>
  For every age of the supported range the lookup raises nothing and its SD is at
  least the smallest SD of the table.
\<close>

lemma reference_total:
  assumes "0 \<le> age" "age \<le> 60"
  shows "\<exists>median sd. get_height_for_age_reference age sex = Inr (median, sd) \<and> 19 / 10 \<le> sd"
proof -
  from in_range_cases [OF assms] show ?thesis
  proof
    assume "age \<in> set (keys references)"
    then obtain r where r: "(age, r) \<in> set references"
      by (auto simp add: keys_def)
    show ?thesis
      using reference_at_anchor [OF r, of sex] table_sd_bound [OF r, of sex]
      by (cases "for_sex sex r") auto
  next
    assume "\<exists>(lo, hi) \<in> set adjacent_anchors. lo < age \<and> age < hi"
    then obtain lo hi where b: "(lo, hi) \<in> set adjacent_anchors" "lo < age" "age < hi"
      by auto
    from adjacent_are_anchors [OF b(1)] obtain r1 r2
      where r: "(lo, r1) \<in> set references" "(hi, r2) \<in> set references" "lo < hi"
      by auto
    have w: "0 \<le> real_of_int (age - lo) / real_of_int (hi - lo)"
      "real_of_int (age - lo) / real_of_int (hi - lo) \<le> 1"
      using weight_unit [of lo age hi] b r(3) by simp_all
    show ?thesis
      using reference_in_bracket [OF b r(1,2), of sex]
        convex_lower [OF table_sd_bound [OF r(1), of sex] table_sd_bound [OF r(2), of sex] w]
      by auto
  qed
qed

section \<open>The z-score and the prediction on given rows\<close>

lemma z_of_reference:
  assumes "get_height_for_age_reference (Age row) (Sex row) = Inr (median, sd)" "sd \<noteq> 0"
  shows "calculate_height_for_age_z row = Inr ((Body_Length row - median) / sd)"
  using assms by (simp add: calculate_height_for_age_z_def)

lemma reference_male_12: "get_height_for_age_reference 12 ''M'' = Inr (76, 28 / 10)"
  using reference_at_anchor [of 12 "(76.0, 2.8, 74.3, 2.8)" "''M''"]
  by (simp add: references_def for_sex_def)

lemma reference_female_24: "get_height_for_age_reference 24 ''F'' = Inr (864 / 10, 34 / 10)"
  using reference_at_anchor [of 24 "(87.8, 3.4, 86.4, 3.4)" "''F''"]
  by (simp add: references_def for_sex_def)

lemma z_example_normal: "calculate_height_for_age_z example_normal = Inr (- 5 / 14)"
  using z_of_reference [of example_normal 76 "28 / 10"] reference_male_12
  by (simp add: example_normal_def)

lemma z_example_stunting: "calculate_height_for_age_z example_stunting = Inr (- 37 / 17)"
  using z_of_reference [of example_stunting "864 / 10" "34 / 10"] reference_female_24
  by (simp add: example_stunting_def)

lemma z_example_severe:
  "calculate_height_for_age_z (example_stunting\<lparr>Body_Length := 70\<rparr>) = Inr (- 82 / 17)"
  using z_of_reference [of "example_stunting\<lparr>Body_Length := 70\<rparr>" "864 / 10" "34 / 10"]
    reference_female_24
  by (simp add: example_stunting_def)

lemma predict_stunting_result:
  assumes "predict_stunting data score = Inr result"
  shows "calculate_height_for_age_z data = Inr (height_for_age_z_score result)"
    and "(who_classification result, stunting_prediction result) =
           classify (height_for_age_z_score result)"
    and "bmi result = compute_bmi data"
    and "score data (compute_bmi data) (height_for_age_z_score result) =
           Inr (stunting_probability result)"
  using assms
  by (auto simp add: predict_stunting_def Let_def split: sum.splits prod.splits)

lemma predict_stunting_success:
  assumes "calculate_height_for_age_z data = Inr z" "score data (compute_bmi data) z = Inr p"
  shows "predict_stunting data score =
    Inr \<lparr>stunting_probability = p, stunting_prediction = snd (classify z),
         who_classification = fst (classify z), height_for_age_z_score = z,
         bmi = compute_bmi data\<rparr>"
  using assms by (simp add: predict_stunting_def Let_def split: prod.splits)

lemma predict_stunting_failure:
  assumes "calculate_height_for_age_z data = Inr z" "score data (compute_bmi data) z = Inl e"
  shows "predict_stunting data score = Inl e"
  using assms by (simp add: predict_stunting_def Let_def split: prod.splits)

section \<open>The classification\<close>

text \<open>
  C1: for every real z-score the classification is \<open>Severely stunted\<close> with
  \<open>Yes\<close> below \<open>-3\<close>, \<open>Stunted\<close> with \<open>Yes\<close> from \<open>-3\<close> up to but excluding \<open>-2\<close>, and
  \<open>Not stunted\<close> with \<open>No\<close> from \<open>-2\<close> on; the three intervals are pairwise disjoint and
  cover the reals; and the classification in the result of \<open>predict_stunting\<close> is the
  classification of the z-score of the row, whatever the model returns.
\<close>

theorem classify_by_zscore_alone:
  "(z < - 3 \<longrightarrow> classify z = (''Severely stunted (WHO)'', ''Yes'')) \<and>
   (- 3 \<le> z \<and> z < - 2 \<longrightarrow> classify z = (''Stunted (WHO)'', ''Yes'')) \<and>
   (- 2 \<le> z \<longrightarrow> classify z = (''Not stunted (WHO)'', ''No'')) \<and>
   (z < - 3 \<or> (- 3 \<le> z \<and> z < - 2) \<or> - 2 \<le> z) \<and>
   \<not> (z < - 3 \<and> - 3 \<le> z \<and> z < - 2) \<and>
   \<not> (z < - 3 \<and> - 2 \<le> z) \<and>
   \<not> ((- 3 \<le> z \<and> z < - 2) \<and> - 2 \<le> z) \<and>
   (\<forall>data score result.
      predict_stunting data score = Inr result \<longrightarrow>
        calculate_height_for_age_z data = Inr (height_for_age_z_score result) \<and>
        (who_classification result, stunting_prediction result) =
          classify (height_for_age_z_score result)) \<and>
   (\<forall>data score1 score2 result1 result2.
      predict_stunting data score1 = Inr result1 \<and> predict_stunting data score2 = Inr result2 \<longrightarrow>
        who_classification result1 = who_classification result2 \<and>
        stunting_prediction result1 = stunting_prediction result2)"
proof -
  have intervals:
    "(z < - 3 \<longrightarrow> classify z = (''Severely stunted (WHO)'', ''Yes'')) \<and>
     (- 3 \<le> z \<and> z < - 2 \<longrightarrow> classify z = (''Stunted (WHO)'', ''Yes'')) \<and>
     (- 2 \<le> z \<longrightarrow> classify z = (''Not stunted (WHO)'', ''No''))"
    by (simp add: classify_def)
  have cover: "z < - 3 \<or> (- 3 \<le> z \<and> z < - 2) \<or> - 2 \<le> z"
    by linarith
  have disjoint:
    "\<not> (z < - 3 \<and> - 3 \<le> z \<and> z < - 2) \<and> \<not> (z < - 3 \<and> - 2 \<le> z) \<and>
     \<not> ((- 3 \<le> z \<and> z < - 2) \<and> - 2 \<le> z)"
    by linarith
  have single: "\<forall>data score result.
      predict_stunting data score = Inr result \<longrightarrow>
        calculate_height_for_age_z data = Inr (height_for_age_z_score result) \<and>
        (who_classification result, stunting_prediction result) =
          classify (height_for_age_z_score result)"
    using predict_stunting_result(1,2) by blast
  have independent: "\<forall>data score1 score2 result1 result2.
      predict_stunting data score1 = Inr result1 \<and> predict_stunting data score2 = Inr result2 \<longrightarrow>
        who_classification result1 = who_classification result2 \<and>
        stunting_prediction result1 = stunting_prediction result2"
  proof (intro allI impI)
    fix data score1 score2 result1 result2
    assume h: "predict_stunting data score1 = Inr result1 \<and> predict_stunting data score2 = Inr result2"
    then have "height_for_age_z_score result1 = height_for_age_z_score result2"
      using predict_stunting_result(1) [of data score1 result1]
        predict_stunting_result(1) [of data score2 result2] by simp
    then show "who_classification result1 = who_classification result2 \<and>
        stunting_prediction result1 = stunting_prediction result2"
      using h predict_stunting_result(2) [of data score1 result1]
        predict_stunting_result(2) [of data score2 result2]
      by (metis prod.inject)
  qed
  from intervals cover disjoint single independent show ?thesis
    by blast
qed

text \<open>
  Witness for C1: one z-score in each interval, and the prediction for the first example
  row with a model that scores it.
\<close>

theorem classify_by_zscore_alone_witness:
  "classify (- 4) = (''Severely stunted (WHO)'', ''Yes'') \<and>
   classify (- 5 / 2) = (''Stunted (WHO)'', ''Yes'') \<and>
   classify 0 = (''Not stunted (WHO)'', ''No'') \<and>
   (\<exists>result. predict_stunting example_normal accepting_scorer = Inr result \<and>
      (who_classification result, stunting_prediction result) =
        classify (height_for_age_z_score result))"
proof -
  have severe: "classify (- 4) = (''Severely stunted (WHO)'', ''Yes'')"
    using classify_by_zscore_alone [of "- 4", THEN conjunct1] by simp
  have stunted: "classify (- 5 / 2) = (''Stunted (WHO)'', ''Yes'')"
    using classify_by_zscore_alone [of "- 5 / 2", THEN conjunct2, THEN conjunct1] by simp
  have normal: "classify 0 = (''Not stunted (WHO)'', ''No'')"
    using classify_by_zscore_alone [of 0, THEN conjunct2, THEN conjunct2, THEN conjunct1]
    by simp
  obtain result where r: "predict_stunting example_normal accepting_scorer = Inr result"
    using predict_stunting_success [OF z_example_normal, of accepting_scorer "1 / 2"]
    by (simp add: accepting_scorer_def)
  have "predict_stunting example_normal accepting_scorer = Inr result \<longrightarrow>
        calculate_height_for_age_z example_normal = Inr (height_for_age_z_score result) \<and>
        (who_classification result, stunting_prediction result) =
          classify (height_for_age_z_score result)"
    using classify_by_zscore_alone [of 0] by blast
  with r have "(who_classification result, stunting_prediction result) =
      classify (height_for_age_z_score result)"
    by simp
  with r severe stunted normal show ?thesis
    by blast
qed

text \<open>
  C2, as stated, fails: \<open>-3\<close> is not below \<open>-3\<close>, so line 141 does not classify it as
  severely stunted, and \<open>-2\<close> is not below \<open>-2\<close>, so line 144 does not classify it as
  stunted.
\<close>

theorem classify_boundary_counterexample:
  "classify (- 3) \<noteq> (''Severely stunted (WHO)'', ''Yes'') \<and>
   classify (- 2) \<noteq> (''Stunted (WHO)'', ''Yes'')"
  by (simp add: classify_def)

text \<open>
  C2, amended: at the boundaries the classification is \<open>Stunted\<close> for \<open>z = -3\<close>,
  \<open>Not stunted\<close> for \<open>z = -2\<close> and \<open>Not stunted\<close> for \<open>z = -1.999\<close>.
\<close>

theorem classify_boundaries:
  "classify (- 3) = (''Stunted (WHO)'', ''Yes'') \<and>
   classify (- 2) = (''Not stunted (WHO)'', ''No'') \<and>
   classify (- 1999 / 1000) = (''Not stunted (WHO)'', ''No'')"
  by (simp add: classify_def)

section \<open>The lookup at and between the anchors\<close>

text \<open>
  C5: for every row of the table, that is for every anchor age \<open>a\<close> in
  \<open>{0, 3, 6, 9, 12, 18, 24, 36, 48, 60}\<close>, and every sex, the lookup uses the single
  anchor \<open>a\<close> and returns the literal median and SD of the table for that sex; no
  interpolation takes place.
\<close>

theorem lookup_at_anchor_exact:
  assumes "(a, m_male, sd_male, m_female, sd_female) \<in> set references"
  shows "a \<in> set (keys references) \<and>
         select_anchors a = Inr (Single a) \<and>
         get_height_for_age_reference a ''M'' = Inr (m_male, sd_male) \<and>
         get_height_for_age_reference a ''F'' = Inr (m_female, sd_female) \<and>
         get_height_for_age_reference a sex =
           Inr (if sex = ''M'' then (m_male, sd_male) else (m_female, sd_female))"
proof -
  from assms have k: "a \<in> set (keys references)"
    by (force simp add: keys_def)
  show ?thesis
    using k select_anchors_single [OF k] reference_at_anchor [OF assms]
    by (simp add: for_sex_def)
qed

text \<open>Witness for C5: the row of the table for 24 months, for both sexes.\<close>

theorem lookup_at_anchor_exact_witness:
  "set (keys references) = {0, 3, 6, 9, 12, 18, 24, 36, 48, 60} \<and>
   (24, 878 / 10, 34 / 10, 864 / 10, 34 / 10) \<in> set references \<and>
   select_anchors 24 = Inr (Single 24) \<and>
   get_height_for_age_reference 24 ''M'' = Inr (878 / 10, 34 / 10) \<and>
   get_height_for_age_reference 24 ''F'' = Inr (864 / 10, 34 / 10)"
proof -
  have m: "(24, 878 / 10, 34 / 10, 864 / 10, 34 / 10) \<in> set references"
    by (simp add: references_def)
  show ?thesis
    using m lookup_at_anchor_exact [OF m, of "''M''"]
    by (simp add: keys_references)
qed

text \<open>
  C4, as stated, fails: the female SD of the table at 24 months (line 68) is \<open>3.4\<close>,
  not \<open>2.5\<close>, so the z-scores of the two heights are not \<open>-2.96\<close> and \<open>-6.56\<close>.
\<close>

theorem female_24_sd_counterexample:
  "get_height_for_age_reference 24 ''F'' \<noteq> Inr (864 / 10, 25 / 10) \<and>
   calculate_height_for_age_z example_stunting \<noteq> Inr (- 296 / 100) \<and>
   calculate_height_for_age_z (example_stunting\<lparr>Body_Length := 70\<rparr>) \<noteq> Inr (- 656 / 100)"
  by (simp add: reference_female_24 z_example_stunting z_example_severe)

text \<open>
  C4, amended: for a girl of 24 months the lookup returns median \<open>86.4\<close> and SD \<open>3.4\<close>;
  a body length of \<open>79.0\<close> gives \<open>z = (79.0 - 86.4) / 3.4 = -37/17\<close> (about \<open>-2.18\<close>), classified
  as stunted, and a body length of \<open>70.0\<close> gives \<open>z = (70.0 - 86.4) / 3.4 = -82/17\<close> (about
  \<open>-4.82\<close>), classified as severely stunted.
\<close>

theorem female_24_examples:
  "get_height_for_age_reference 24 ''F'' = Inr (864 / 10, 34 / 10) \<and>
   Sex example_stunting = ''F'' \<and> Age example_stunting = 24 \<and>
   Body_Length example_stunting = 79 \<and>
   calculate_height_for_age_z example_stunting = Inr ((79 - 864 / 10) / (34 / 10)) \<and>
   (79 - 864 / 10) / (34 / 10) = (- 37 / 17 :: real) \<and>
   classify (- 37 / 17) = (''Stunted (WHO)'', ''Yes'') \<and>
   calculate_height_for_age_z (example_stunting\<lparr>Body_Length := 70\<rparr>) =
     Inr ((70 - 864 / 10) / (34 / 10)) \<and>
   (70 - 864 / 10) / (34 / 10) = (- 82 / 17 :: real) \<and>
   classify (- 82 / 17) = (''Severely stunted (WHO)'', ''Yes'')"
proof -
  have fields: "Sex example_stunting = ''F'' \<and> Age example_stunting = 24 \<and>
      Body_Length example_stunting = 79"
    by (simp add: example_stunting_def)
  have stunted: "calculate_height_for_age_z example_stunting = Inr ((79 - 864 / 10) / (34 / 10))"
    by (simp add: z_example_stunting)
  have severe: "calculate_height_for_age_z (example_stunting\<lparr>Body_Length := 70\<rparr>) =
      Inr ((70 - 864 / 10) / (34 / 10))"
    by (simp add: z_example_severe)
  have cls: "classify (- 37 / 17) = (''Stunted (WHO)'', ''Yes'') \<and>
      classify (- 82 / 17) = (''Severely stunted (WHO)'', ''Yes'')"
    by (simp add: classify_def)
  have nums: "(79 - 864 / 10) / (34 / 10) = (- 37 / 17 :: real) \<and>
      (70 - 864 / 10) / (34 / 10) = (- 82 / 17 :: real)"
    by simp
  from fields stunted severe cls nums reference_female_24 show ?thesis
    by blast
qed

section \<open>The z-score on the supported ages\<close>

lemma z_in_range:
  assumes "0 \<le> Age row" "Age row \<le> 60"
  shows "\<exists>median sd. get_height_for_age_reference (Age row) (Sex row) = Inr (median, sd) \<and>
           19 / 10 \<le> sd \<and>
           calculate_height_for_age_z row = Inr ((Body_Length row - median) / sd)"
proof -
  from reference_total [OF assms, of "Sex row"] obtain median sd
    where r: "get_height_for_age_reference (Age row) (Sex row) = Inr (median, sd)"
      and sd: "19 / 10 \<le> sd"
    by blast
  from sd have "sd \<noteq> 0"
    by auto
  from z_of_reference [OF r this] r sd show ?thesis
    by blast
qed

text \<open>
  C3: for every row with an age from 0 to 60 months, the z-score is exactly
  \<open>(height - median) / sd\<close> for the pair \<open>(median, sd)\<close> that the lookup returns, and it is
  not clamped: every real \<open>t\<close> is the z-score of the height \<open>median + t * sd\<close>. For a boy of
  12 months the lookup gives \<open>(76.0, 2.8)\<close>, and the height \<open>75.0\<close> of the first example row
  gives \<open>z = (75.0 - 76.0) / 2.8\<close>, which is within \<open>0.001\<close> of \<open>-0.357\<close> and is classified
  as not stunted.
\<close>

theorem zscore_is_unclamped_quotient:
  assumes "0 \<le> Age row" "Age row \<le> 60"
  shows "(\<exists>median sd.
            get_height_for_age_reference (Age row) (Sex row) = Inr (median, sd) \<and>
            sd \<noteq> 0 \<and>
            calculate_height_for_age_z row = Inr ((Body_Length row - median) / sd) \<and>
            (\<forall>t. calculate_height_for_age_z (row\<lparr>Body_Length := median + t * sd\<rparr>) = Inr t)) \<and>
         get_height_for_age_reference 12 ''M'' = Inr (76, 28 / 10) \<and>
         calculate_height_for_age_z example_normal = Inr ((75 - 76) / (28 / 10)) \<and>
         \<bar>(75 - 76) / (28 / 10) - (- 357 / 1000)\<bar> < (1 / 1000 :: real) \<and>
         classify ((75 - 76) / (28 / 10)) = (''Not stunted (WHO)'', ''No'')"
proof -
  from z_in_range [OF assms] obtain median sd
    where r: "get_height_for_age_reference (Age row) (Sex row) = Inr (median, sd)"
      and sd: "19 / 10 \<le> sd"
      and z: "calculate_height_for_age_z row = Inr ((Body_Length row - median) / sd)"
    by blast
  from sd have nz: "sd \<noteq> 0"
    by auto
  have "calculate_height_for_age_z (row\<lparr>Body_Length := median + t * sd\<rparr>) = Inr t" for t
    using z_of_reference [of "row\<lparr>Body_Length := median + t * sd\<rparr>" median sd] r nz
    by simp
  with r nz z have general: "\<exists>median sd.
           get_height_for_age_reference (Age row) (Sex row) = Inr (median, sd) \<and>
           sd \<noteq> 0 \<and>
           calculate_height_for_age_z row = Inr ((Body_Length row - median) / sd) \<and>
           (\<forall>t. calculate_height_for_age_z (row\<lparr>Body_Length := median + t * sd\<rparr>) = Inr t)"
    by blast
  have example: "calculate_height_for_age_z example_normal = Inr ((75 - 76) / (28 / 10))"
    by (simp add: z_example_normal)
  have approx: "\<bar>(75 - 76) / (28 / 10) - (- 357 / 1000)\<bar> < (1 / 1000 :: real)"
    by simp
  have normal: "classify ((75 - 76) / (28 / 10)) = (''Not stunted (WHO)'', ''No'')"
    by (simp add: classify_def)
  from general reference_male_12 example approx normal show ?thesis
    by blast
qed

text \<open>Witness for C3: the first example row, and the height that gives \<open>z = -100\<close>.\<close>

theorem zscore_is_unclamped_quotient_witness:
  "0 \<le> Age example_normal \<and> Age example_normal \<le> 60 \<and>
   (\<exists>median sd.
      get_height_for_age_reference (Age example_normal) (Sex example_normal) = Inr (median, sd) \<and>
      calculate_height_for_age_z example_normal =
        Inr ((Body_Length example_normal - median) / sd) \<and>
      calculate_height_for_age_z (example_normal\<lparr>Body_Length := median + (- 100) * sd\<rparr>) =
        Inr (- 100))"
proof -
  have a: "0 \<le> Age example_normal" and b: "Age example_normal \<le> 60"
    by (simp_all add: example_normal_def)
  from zscore_is_unclamped_quotient [OF a b, THEN conjunct1] a b show ?thesis
    by blast
qed

text \<open>
  C6: for every age strictly between two neighbouring anchors \<open>lo\<close> and \<open>hi\<close> and every sex,
  the lookup returns \<open>m1 + w * (m2 - m1)\<close> and \<open>sd1 + w * (sd2 - sd1)\<close> with the weight
  \<open>w = (age - lo) / (hi - lo)\<close>, where \<open>(m1, sd1)\<close> and \<open>(m2, sd2)\<close> are the values of the two
  anchors; the weight lies in \<open>[0, 1]\<close> and the median lies between the two anchors'
  medians.
\<close>

theorem interpolation_in_bracket:
  assumes "(lo, hi) \<in> set adjacent_anchors" "lo < age" "age < hi"
  shows "\<exists>m1 sd1 m2 sd2 median sd w.
           anchor_value lo sex = Inr (m1, sd1) \<and>
           anchor_value hi sex = Inr (m2, sd2) \<and>
           w = real_of_int (age - lo) / real_of_int (hi - lo) \<and>
           0 \<le> w \<and> w \<le> 1 \<and>
           get_height_for_age_reference age sex = Inr (median, sd) \<and>
           median = m1 + w * (m2 - m1) \<and>
           sd = sd1 + w * (sd2 - sd1) \<and>
           min m1 m2 \<le> median \<and> median \<le> max m1 m2"
proof -
  from adjacent_are_anchors [OF assms(1)] obtain r1 r2
    where r: "(lo, r1) \<in> set references" "(hi, r2) \<in> set references" "lo < hi"
    by auto
  define w where "w = real_of_int (age - lo) / real_of_int (hi - lo)"
  have w: "0 \<le> w" "w \<le> 1"
    using weight_unit [of lo age hi] assms r(3) by (simp_all add: w_def)
  obtain m1 sd1 where v1: "for_sex sex r1 = (m1, sd1)"
    by (cases "for_sex sex r1")
  obtain m2 sd2 where v2: "for_sex sex r2 = (m2, sd2)"
    by (cases "for_sex sex r2")
  have a1: "anchor_value lo sex = Inr (m1, sd1)"
    by (simp add: anchor_value_def getitem_anchor [OF r(1)] v1)
  have a2: "anchor_value hi sex = Inr (m2, sd2)"
    by (simp add: anchor_value_def getitem_anchor [OF r(2)] v2)
  have g: "get_height_for_age_reference age sex =
      Inr (m1 + w * (m2 - m1), sd1 + w * (sd2 - sd1))"
    using reference_in_bracket [OF assms r(1,2), of sex] by (simp add: v1 v2 w_def)
  have lower: "min m1 m2 \<le> m1 + w * (m2 - m1)"
    by (rule convex_lower [OF _ _ w]) simp_all
  have upper: "m1 + w * (m2 - m1) \<le> max m1 m2"
    by (rule convex_upper [OF _ _ w]) simp_all
  from a1 a2 w g lower upper w_def show ?thesis
    by blast
qed

text \<open>
  Witness for C6: a boy of 15 months, half way between the anchors 12 and 18: median
  \<open>79.2\<close>, SD \<open>2.95\<close>.
\<close>

theorem interpolation_in_bracket_witness:
  "(12, 18) \<in> set adjacent_anchors \<and> (12 :: int) < 15 \<and> (15 :: int) < 18 \<and>
   anchor_value 12 ''M'' = Inr (76, 28 / 10) \<and>
   anchor_value 18 ''M'' = Inr (824 / 10, 31 / 10) \<and>
   get_height_for_age_reference 15 ''M'' = Inr (792 / 10, 295 / 100)"
proof -
  have a: "(12, 18) \<in> set adjacent_anchors"
    by (simp add: adjacent_anchors_eq)
  have b: "(12 :: int) < 15" and c: "(15 :: int) < 18"
    by simp_all
  have lo: "anchor_value 12 ''M'' = Inr (76, 28 / 10)"
    by (simp add: anchor_value_def getitem_def references_def for_sex_def)
  have hi: "anchor_value 18 ''M'' = Inr (824 / 10, 31 / 10)"
    by (simp add: anchor_value_def getitem_def references_def for_sex_def)
  from interpolation_in_bracket [OF a b c, of "''M''"] obtain m1 sd1 m2 sd2 median sd w
    where h: "anchor_value 12 ''M'' = Inr (m1, sd1)" "anchor_value 18 ''M'' = Inr (m2, sd2)"
      "w = real_of_int (15 - 12) / real_of_int (18 - 12)"
      "get_height_for_age_reference 15 ''M'' = Inr (median, sd)"
      "median = m1 + w * (m2 - m1)" "sd = sd1 + w * (sd2 - sd1)"
    by blast
  from h(1) lo have v1: "m1 = 76" "sd1 = 28 / 10"
    by simp_all
  from h(2) hi have v2: "m2 = 824 / 10" "sd2 = 31 / 10"
    by simp_all
  from h(3) have w: "w = 1 / 2"
    by simp
  have "get_height_for_age_reference 15 ''M'' = Inr (792 / 10, 295 / 100)"
    unfolding h(4) h(5) h(6) v1 v2 w by simp
  with a b c lo hi show ?thesis
    by blast
qed

section \<open>The branches taken on the supported ages\<close>

lemma nearest_within_six:
  assumes "0 \<le> age" "age \<le> 60"
  shows "\<exists>closest. py_min (keys references) (\<lambda>x. \<bar>x - age\<bar>) = Inr closest \<and>
           closest \<in> set (keys references) \<and> \<bar>closest - age\<bar> \<le> 6"
proof -
  define closest :: int where "closest =
     (if age \<le> 1 then 0 else if age \<le> 4 then 3 else if age \<le> 7 then 6
      else if age \<le> 10 then 9 else if age \<le> 15 then 12 else if age \<le> 21 then 18
      else if age \<le> 30 then 24 else if age \<le> 42 then 36 else if age \<le> 54 then 48
      else 60)"
  have "py_min (keys references) (\<lambda>x. \<bar>x - age\<bar>) = Inr closest"
    unfolding closest_def by (rule nearest_anchor)
  moreover have "closest \<in> set (keys references)"
    by (simp add: closest_def keys_references)
  moreover have "\<bar>closest - age\<bar> \<le> 6"
    using assms unfolding closest_def by (auto simp add: abs_if)
  ultimately show ?thesis
    by blast
qed

text \<open>
  C10: for every integer age from 0 to 60 the nearest anchor is at most 6 months away;
  and when the age is not an anchor, lines 74-88 choose a pair of neighbouring anchors
  \<open>lo \<le> age \<le> hi\<close> and the lookup is the interpolation between them: neither the
  fallback for a distance above 12 months nor the edge branch of lines 84-88, which
  both return a single anchor, is taken.
\<close>

theorem in_range_bracketed:
  assumes "0 \<le> age" "age \<le> 60"
  shows "(\<exists>closest. py_min (keys references) (\<lambda>x. \<bar>x - age\<bar>) = Inr closest \<and>
            closest \<in> set (keys references) \<and> \<bar>closest - age\<bar> \<le> 6) \<and>
         (age \<notin> set (keys references) \<longrightarrow>
            (\<exists>lo hi. select_anchors age = Inr (Bracket lo hi) \<and>
               (lo, hi) \<in> set adjacent_anchors \<and> lo \<le> age \<and> age \<le> hi \<and>
               get_height_for_age_reference age sex = interpolate age sex lo hi))"
proof -
  have "\<exists>lo hi. select_anchors age = Inr (Bracket lo hi) \<and>
               (lo, hi) \<in> set adjacent_anchors \<and> lo \<le> age \<and> age \<le> hi \<and>
               get_height_for_age_reference age sex = interpolate age sex lo hi"
    if "age \<notin> set (keys references)"
  proof -
    from in_range_cases [OF assms] that obtain lo hi
      where b: "(lo, hi) \<in> set adjacent_anchors" "lo < age" "age < hi"
      by auto
    have s: "select_anchors age = Inr (Bracket lo hi)"
      by (rule select_anchors_bracket [OF b])
    have "get_height_for_age_reference age sex = interpolate age sex lo hi"
      by (simp add: get_height_for_age_reference_def s)
    with s b show ?thesis
      by (intro exI [of _ lo] exI [of _ hi]) simp
  qed
  with nearest_within_six [OF assms] show ?thesis
    by blast
qed

text \<open>
  Witness for C10: the age of 30 months, 6 months from its nearest anchor 24 and as far
  from 36.
\<close>

theorem in_range_bracketed_witness:
  "(0 :: int) \<le> 30 \<and> (30 :: int) \<le> 60 \<and> 30 \<notin> set (keys references) \<and>
   py_min (keys references) (\<lambda>x. \<bar>x - 30\<bar>) = Inr 24 \<and>
   (\<exists>lo hi. select_anchors 30 = Inr (Bracket lo hi) \<and>
      (lo, hi) \<in> set adjacent_anchors \<and> lo \<le> 30 \<and> 30 \<le> hi \<and>
      get_height_for_age_reference 30 ''F'' = interpolate 30 ''F'' lo hi)"
proof -
  have a: "(0 :: int) \<le> 30" and b: "(30 :: int) \<le> 60"
    by simp_all
  have c: "30 \<notin> set (keys references)"
    by (simp add: keys_references)
  have d: "py_min (keys references) (\<lambda>x. \<bar>x - 30\<bar>) = Inr 24"
    by (simp add: nearest_anchor)
  from in_range_bracketed [OF a b, of "''F''"] a b c d show ?thesis
    by blast
qed

text \<open>
  C9: every SD of the table is at least \<open>1.9\<close>; for every integer age from 0 to 60 and
  every sex the lookup returns an SD of at least \<open>1.9\<close>, hence strictly positive, and the
  division of line 113 never has a zero divisor.
\<close>

theorem sd_positive_in_range:
  assumes "0 \<le> age" "age \<le> 60"
  shows "(\<forall>(a, m_male, sd_male, m_female, sd_female) \<in> set references.
            19 / 10 \<le> sd_male \<and> 19 / 10 \<le> sd_female) \<and>
         (\<exists>median sd.
            get_height_for_age_reference age sex = Inr (median, sd) \<and>
            19 / 10 \<le> sd \<and> 0 < sd \<and>
            (\<forall>row. Age row = age \<and> Sex row = sex \<longrightarrow>
               calculate_height_for_age_z row = Inr ((Body_Length row - median) / sd) \<and>
               calculate_height_for_age_z row \<noteq> Inl ZeroDivisionError))"
proof -
  have table: "\<forall>(a, m_male, sd_male, m_female, sd_female) \<in> set references.
            19 / 10 \<le> sd_male \<and> 19 / 10 \<le> sd_female"
    by (simp add: references_def)
  from reference_total [OF assms, of sex] obtain median sd
    where r: "get_height_for_age_reference age sex = Inr (median, sd)" and sd: "19 / 10 \<le> sd"
    by blast
  from sd have pos: "0 < sd"
    by linarith
  have "calculate_height_for_age_z row = Inr ((Body_Length row - median) / sd) \<and>
        calculate_height_for_age_z row \<noteq> Inl ZeroDivisionError"
    if "Age row = age \<and> Sex row = sex" for row
    using z_of_reference [of row median sd] r pos that by simp
  with r sd pos table show ?thesis
    by blast
qed

text \<open>Witness for C9: a girl of 30 months.\<close>

theorem sd_positive_in_range_witness:
  "(0 :: int) \<le> 30 \<and> (30 :: int) \<le> 60 \<and>
   (\<exists>median sd. get_height_for_age_reference 30 ''F'' = Inr (median, sd) \<and> 0 < sd \<and>
      calculate_height_for_age_z (example_stunting\<lparr>Age := 30\<rparr>) =
        Inr ((79 - median) / sd))"
proof -
  have a: "(0 :: int) \<le> 30" and b: "(30 :: int) \<le> 60"
    by simp_all
  from sd_positive_in_range [OF a b, of "''F''", THEN conjunct2] obtain median sd
    where h: "get_height_for_age_reference 30 ''F'' = Inr (median, sd)" "0 < sd"
      "\<forall>row. Age row = 30 \<and> Sex row = ''F'' \<longrightarrow>
         calculate_height_for_age_z row = Inr ((Body_Length row - median) / sd) \<and>
         calculate_height_for_age_z row \<noteq> Inl ZeroDivisionError"
    by blast
  have "Age (example_stunting\<lparr>Age := 30\<rparr>) = 30 \<and> Sex (example_stunting\<lparr>Age := 30\<rparr>) = ''F''"
    by (simp add: example_stunting_def)
  with h(3) have "calculate_height_for_age_z (example_stunting\<lparr>Age := 30\<rparr>) =
      Inr ((Body_Length (example_stunting\<lparr>Age := 30\<rparr>) - median) / sd)"
    by blast
  then have "calculate_height_for_age_z (example_stunting\<lparr>Age := 30\<rparr>) = Inr ((79 - median) / sd)"
    by (simp add: example_stunting_def)
  with h(1,2) a b show ?thesis
    by blast
qed

section \<open>A body length of zero\<close>

lemma bmi_zero_length:
  assumes "Body_Length data = 0"
  shows "compute_bmi data =
    (if Body_Weight data > 0 then PosInf else if Body_Weight data < 0 then NegInf else NaN)"
  using assms by (simp add: compute_bmi_def fdiv_def)

lemma bmi_positive_length:
  assumes "Body_Length data \<noteq> 0"
  shows "compute_bmi data = Finite (Body_Weight data / (Body_Length data / 100)\<^sup>2)"
  using assms by (simp add: compute_bmi_def fdiv_def)

lemma predict_stunting_eq:
  assumes "calculate_height_for_age_z data = Inr z"
  shows "predict_stunting data score =
    (case score data (compute_bmi data) z of
       Inl e \<Rightarrow> Inl e
     | Inr p \<Rightarrow>
         Inr \<lparr>stunting_probability = p, stunting_prediction = snd (classify z),
              who_classification = fst (classify z), height_for_age_z_score = z,
              bmi = compute_bmi data\<rparr>)"
  using assms by (simp add: predict_stunting_def Let_def split: prod.splits sum.splits)

text \<open>
  C7: the claim requires that a row with body length 0 is rejected and that no infinite
  or NaN value is returned. The code does not meet it. The form of the single
  prediction bounds the body length to 40..120 (line 218), but a row of an uploaded
  table reaches \<open>predict_stunting\<close> unchecked (lines 346-348), and line 134 divides by the
  square of the length without a guard. At the first example row with body length 0,
  the z-score is the finite \<open>-190/7\<close>, the BMI is plus infinity, lines 131-149 raise
  nothing, and for a model that returns a probability the result carries the infinite
  BMI.
\<close>

theorem zero_length_bmi_infinite:
  "calculate_height_for_age_z (example_normal\<lparr>Body_Length := 0\<rparr>) = Inr (- 190 / 7) \<and>
   compute_bmi (example_normal\<lparr>Body_Length := 0\<rparr>) = PosInf \<and>
   \<not> is_finite (compute_bmi (example_normal\<lparr>Body_Length := 0\<rparr>)) \<and>
   (\<forall>score. predict_stunting (example_normal\<lparr>Body_Length := 0\<rparr>) score =
      (case score (example_normal\<lparr>Body_Length := 0\<rparr>) PosInf (- 190 / 7) of
         Inl e \<Rightarrow> Inl e
       | Inr p \<Rightarrow>
           Inr \<lparr>stunting_probability = p, stunting_prediction = ''Yes'',
                who_classification = ''Severely stunted (WHO)'',
                height_for_age_z_score = - 190 / 7, bmi = PosInf\<rparr>)) \<and>
   predict_stunting (example_normal\<lparr>Body_Length := 0\<rparr>) accepting_scorer =
     Inr \<lparr>stunting_probability = 1 / 2, stunting_prediction = ''Yes'',
          who_classification = ''Severely stunted (WHO)'',
          height_for_age_z_score = - 190 / 7, bmi = PosInf\<rparr>"
proof -
  let ?row = "example_normal\<lparr>Body_Length := 0\<rparr>"
  have z: "calculate_height_for_age_z ?row = Inr (- 190 / 7)"
    using z_of_reference [of ?row 76 "28 / 10"] reference_male_12
    by (simp add: example_normal_def)
  have b: "compute_bmi ?row = PosInf"
    using bmi_zero_length [of ?row] by (simp add: example_normal_def)
  have nf: "\<not> is_finite (compute_bmi ?row)"
    unfolding b by (simp add: is_finite_def)
  have c: "classify (- 190 / 7) = (''Severely stunted (WHO)'', ''Yes'')"
    by (simp add: classify_def)
  have p: "predict_stunting ?row score =
      (case score ?row PosInf (- 190 / 7) of
         Inl e \<Rightarrow> Inl e
       | Inr p \<Rightarrow>
           Inr \<lparr>stunting_probability = p, stunting_prediction = ''Yes'',
                who_classification = ''Severely stunted (WHO)'',
                height_for_age_z_score = - 190 / 7, bmi = PosInf\<rparr>)" for score
    unfolding predict_stunting_eq [OF z] b c by (simp split: sum.splits)
  have a: "predict_stunting ?row accepting_scorer =
     Inr \<lparr>stunting_probability = 1 / 2, stunting_prediction = ''Yes'',
          who_classification = ''Severely stunted (WHO)'',
          height_for_age_z_score = - 190 / 7, bmi = PosInf\<rparr>"
    unfolding p by (simp add: accepting_scorer_def)
  from z b nf p a show ?thesis
    by blast
qed

section \<open>The batch\<close>

text \<open>
  The loop returns the results of all rows when no row raises, and otherwise the
  exception of the first row that raises.
\<close>

lemma batch_loop_closed:
  "batch_loop rows score acc =
    (case find (\<lambda>row. isl (predict_stunting row score)) rows of
       None \<Rightarrow> Inr (acc @ map (\<lambda>row. projr (predict_stunting row score)) rows)
     | Some bad \<Rightarrow> Inl (projl (predict_stunting bad score)))"
  by (induction rows arbitrary: acc) (auto split: sum.splits option.splits)

lemma predict_batch_closed:
  "predict_batch rows score =
    (case find (\<lambda>row. isl (predict_stunting row score)) rows of
       None \<Rightarrow> Results (map (\<lambda>row. projr (predict_stunting row score)) rows)
     | Some bad \<Rightarrow> ErrorShown (projl (predict_stunting bad score)))"
  by (simp add: predict_batch_def batch_loop_closed split: option.splits)

text \<open>
  C8, amended: the batch shows one result per row, in input order and as many as there
  are rows, exactly when no row raises. When a row raises, the loop is left at the
  first such row, the handler of lines 386-387 shows that row's exception, and no
  result of any row is shown: there are no per-row error entries.
\<close>

theorem batch_is_all_or_nothing:
  "predict_batch rows score =
     (case find (\<lambda>row. isl (predict_stunting row score)) rows of
        None \<Rightarrow> Results (map (\<lambda>row. projr (predict_stunting row score)) rows)
      | Some bad \<Rightarrow> ErrorShown (projl (predict_stunting bad score))) \<and>
   ((\<forall>row \<in> set rows. \<exists>result. predict_stunting row score = Inr result) \<longrightarrow>
      (\<exists>results. predict_batch rows score = Results results \<and>
         length results = length rows \<and>
         (\<forall>i < length rows. predict_stunting (rows ! i) score = Inr (results ! i)))) \<and>
   ((\<exists>row \<in> set rows. \<exists>e. predict_stunting row score = Inl e) \<longrightarrow>
      (\<exists>e. predict_batch rows score = ErrorShown e \<and>
         (\<exists>row \<in> set rows. predict_stunting row score = Inl e)))"
proof -
  let ?fails = "\<lambda>row. isl (predict_stunting row score)"
  have ok: "\<exists>results. predict_batch rows score = Results results \<and>
         length results = length rows \<and>
         (\<forall>i < length rows. predict_stunting (rows ! i) score = Inr (results ! i))"
    if h: "\<forall>row \<in> set rows. \<exists>result. predict_stunting row score = Inr result"
  proof -
    from h have "\<forall>row \<in> set rows. \<not> ?fails row"
      by auto
    then have none: "find ?fails rows = None"
      by (simp add: find_None_iff)
    let ?results = "map (\<lambda>row. projr (predict_stunting row score)) rows"
    have "predict_batch rows score = Results ?results"
      by (simp add: predict_batch_closed none)
    moreover have "length ?results = length rows"
      by simp
    moreover have "\<forall>i < length rows. predict_stunting (rows ! i) score = Inr (?results ! i)"
    proof (intro allI impI)
      fix i assume i: "i < length rows"
      then have "rows ! i \<in> set rows"
        by simp
      with h obtain result where "predict_stunting (rows ! i) score = Inr result"
        by blast
      with i show "predict_stunting (rows ! i) score = Inr (?results ! i)"
        by simp
    qed
    ultimately show ?thesis
      by blast
  qed
  have bad: "\<exists>e. predict_batch rows score = ErrorShown e \<and>
         (\<exists>row \<in> set rows. predict_stunting row score = Inl e)"
    if h: "\<exists>row \<in> set rows. \<exists>e. predict_stunting row score = Inl e"
  proof -
    from h obtain row e where "row \<in> set rows" "predict_stunting row score = Inl e"
      by blast
    then have "row \<in> set rows \<and> ?fails row"
      by simp
    then have "\<exists>row \<in> set rows. ?fails row"
      by blast
    then obtain first where f: "find ?fails rows = Some first"
      by (cases "find ?fails rows") (auto simp add: find_None_iff)
    then have "first \<in> set rows" and "?fails first"
      by (auto simp add: find_Some_iff)
    then obtain e where e: "predict_stunting first score = Inl e"
      by (cases "predict_stunting first score") auto
    have "predict_batch rows score = ErrorShown e"
      by (simp add: predict_batch_closed f e)
    with e \<open>first \<in> set rows\<close> show ?thesis
      by blast
  qed
  from predict_batch_closed [of rows score] ok bad show ?thesis
    by blast
qed

lemma predict_examples:
  "\<exists>r1. predict_stunting example_normal accepting_scorer = Inr r1"
  "\<exists>r2. predict_stunting example_stunting accepting_scorer = Inr r2"
  "\<exists>r1. predict_stunting example_normal finite_only_scorer = Inr r1"
  "predict_stunting (example_normal\<lparr>Body_Length := 0\<rparr>) finite_only_scorer = Inl ModelError"
proof -
  show "\<exists>r1. predict_stunting example_normal accepting_scorer = Inr r1"
    using predict_stunting_success [OF z_example_normal, of accepting_scorer "1 / 2"]
    by (simp add: accepting_scorer_def)
  show "\<exists>r2. predict_stunting example_stunting accepting_scorer = Inr r2"
    using predict_stunting_success [OF z_example_stunting, of accepting_scorer "1 / 2"]
    by (simp add: accepting_scorer_def)
  have "is_finite (compute_bmi example_normal)"
    using bmi_positive_length [of example_normal]
    by (simp add: example_normal_def is_finite_def)
  then show "\<exists>r1. predict_stunting example_normal finite_only_scorer = Inr r1"
    using predict_stunting_success [OF z_example_normal, of finite_only_scorer "1 / 2"]
    by (simp add: finite_only_scorer_def)
  let ?row = "example_normal\<lparr>Body_Length := 0\<rparr>"
  obtain z where z: "calculate_height_for_age_z ?row = Inr z"
    using z_of_reference [of ?row 76 "28 / 10"] reference_male_12
    by (simp add: example_normal_def)
  have "compute_bmi ?row = PosInf"
    using bmi_zero_length [of ?row] by (simp add: example_normal_def)
  then have s: "finite_only_scorer ?row (compute_bmi ?row) z = Inl ModelError"
    by (simp add: finite_only_scorer_def is_finite_def)
  show "predict_stunting ?row finite_only_scorer = Inl ModelError"
    by (rule predict_stunting_failure [of ?row z finite_only_scorer ModelError]) (fact z, fact s)
qed

text \<open>
  C8, as stated, fails: with a model that raises on a BMI that is not finite, a batch of
  three rows whose second row has body length 0 ends in one error message, not in a
  sequence of three entries.
\<close>

theorem batch_aborts_counterexample:
  "predict_batch [example_normal, example_normal\<lparr>Body_Length := 0\<rparr>, example_stunting]
     finite_only_scorer = ErrorShown ModelError \<and>
   (\<nexists>results.
      predict_batch [example_normal, example_normal\<lparr>Body_Length := 0\<rparr>, example_stunting]
        finite_only_scorer = Results results)"
proof -
  from predict_examples(3) obtain r1
    where r1: "predict_stunting example_normal finite_only_scorer = Inr r1"
    by blast
  have "predict_batch [example_normal, example_normal\<lparr>Body_Length := 0\<rparr>, example_stunting]
     finite_only_scorer = ErrorShown ModelError"
    by (simp add: predict_batch_def r1 predict_examples(4))
  then show ?thesis
    by simp
qed

text \<open>Witness for C8: a batch of two rows that are scored, and a batch whose second row raises.\<close>

theorem batch_is_all_or_nothing_witness:
  "(\<exists>results. predict_batch [example_normal, example_stunting] accepting_scorer = Results results \<and>
      length results = 2 \<and>
      predict_stunting example_normal accepting_scorer = Inr (results ! 0) \<and>
      predict_stunting example_stunting accepting_scorer = Inr (results ! 1)) \<and>
   predict_batch [example_normal, example_normal\<lparr>Body_Length := 0\<rparr>] finite_only_scorer =
     ErrorShown ModelError"
proof -
  let ?rows = "[example_normal, example_stunting]"
  have all_ok: "\<forall>row \<in> set ?rows. \<exists>result. predict_stunting row accepting_scorer = Inr result"
    using predict_examples(1,2) by simp
  from batch_is_all_or_nothing [of ?rows accepting_scorer, THEN conjunct2, THEN conjunct1] all_ok
  obtain results where r: "predict_batch ?rows accepting_scorer = Results results"
    "length results = length ?rows"
    "\<forall>i < length ?rows. predict_stunting (?rows ! i) accepting_scorer = Inr (results ! i)"
    by blast
  have "predict_stunting (?rows ! 0) accepting_scorer = Inr (results ! 0)"
    "predict_stunting (?rows ! 1) accepting_scorer = Inr (results ! 1)"
    using r(3) [rule_format, of 0] r(3) [rule_format, of 1] by simp_all
  then have first: "\<exists>results. predict_batch ?rows accepting_scorer = Results results \<and>
      length results = 2 \<and>
      predict_stunting example_normal accepting_scorer = Inr (results ! 0) \<and>
      predict_stunting example_stunting accepting_scorer = Inr (results ! 1)"
    using r(1,2) by auto
  let ?bad = "[example_normal, example_normal\<lparr>Body_Length := 0\<rparr>]"
  have "\<exists>row \<in> set ?bad. \<exists>e. predict_stunting row finite_only_scorer = Inl e"
    using predict_examples(4) by simp
  with batch_is_all_or_nothing [of ?bad finite_only_scorer, THEN conjunct2, THEN conjunct2]
  obtain e where e: "predict_batch ?bad finite_only_scorer = ErrorShown e"
    "\<exists>row \<in> set ?bad. predict_stunting row finite_only_scorer = Inl e"
    by blast
  from e(2) predict_examples(3,4) have "e = ModelError"
    by auto
  with e(1) first show ?thesis
    by blast
qed

end
